theory Spec2Isabelle
  imports Complex_Main
begin

section \<open>Values of the request and of the rows\<close>

text \<open>
  The handler \<open>submit_data\<close> of \<open>app.py\<close> works on whatever \<open>request.get_json()\<close>
  returns: Python values built from JSON. A Python float is its value, or one of the three
  special values the JSON reader also accepts. A dict is the list of its items, read with
  \<open>map_of\<close>: the first item with a key is the dict's value for it.
\<close>

datatype pyfloat = Finite rat | PosInf | NegInf | NaN

datatype json =
    JNull
  | JBool bool
  | JInt int
  | JFloat pyfloat
  | JStr string
  | JArr "json list"
  | JObj "(string \<times> json) list"

text \<open>Python's truth value of an object, as \<open>not x\<close> tests it.\<close>

fun truthy :: "json \<Rightarrow> bool" where
  "truthy JNull = False"
| "truthy (JBool b) = b"
| "truthy (JInt i) = (i \<noteq> 0)"
| "truthy (JFloat (Finite r)) = (r \<noteq> 0)"
| "truthy (JFloat _) = True"
| "truthy (JStr s) = (s \<noteq> [])"
| "truthy (JArr xs) = (xs \<noteq> [])"
| "truthy (JObj kvs) = (kvs \<noteq> [])"

fun type_name :: "json \<Rightarrow> string" where
  "type_name JNull = ''NoneType''"
| "type_name (JBool _) = ''bool''"
| "type_name (JInt _) = ''int''"
| "type_name (JFloat _) = ''float''"
| "type_name (JStr _) = ''str''"
| "type_name (JArr _) = ''list''"
| "type_name (JObj _) = ''dict''"

definition quoted :: "string \<Rightarrow> string" where
  "quoted s = CHR 0x27 # s @ [CHR 0x27]"

section \<open>Exceptions\<close>

text \<open>
  Every exception the \<open>try\<close> block can raise, with the text \<open>str(e)\<close> gives. The text of
  a database error is reduced to the engine's own message (SQLAlchemy adds the statement).
\<close>

datatype exn =
    AttributeError string
  | TypeError string
  | HTTPException string
  | IntegrityError string
  | DBAPIError string

fun str :: "exn \<Rightarrow> string" where
  "str (AttributeError m) = m"
| "str (TypeError m) = m"
| "str (HTTPException m) = m"
| "str (IntegrityError m) = m"
| "str (DBAPIError m) = m"

text \<open>
  \<open>x.get(k)\<close>: a dict answers with the value or \<open>None\<close>; no other JSON value has the
  method.
\<close>

definition dict_get :: "(string \<times> json) list \<Rightarrow> string \<Rightarrow> json" where
  "dict_get kvs k = (case map_of kvs k of None \<Rightarrow> JNull | Some v \<Rightarrow> v)"

definition no_attribute :: "json \<Rightarrow> string \<Rightarrow> exn" where
  "no_attribute v a =
     AttributeError (quoted (type_name v) @ '' object has no attribute '' @ quoted a)"

fun py_get :: "json \<Rightarrow> string \<Rightarrow> exn + json" where
  "py_get (JObj kvs) k = Inr (dict_get kvs k)"
| "py_get v k = Inl (no_attribute v ''get'')"

text \<open>
  \<open>for trial_data in trials\<close>: a list yields its elements, a string its characters, a dict
  its keys; a number or a boolean is not iterable. (\<open>None\<close> never reaches the loop.)
\<close>

fun py_iter :: "json \<Rightarrow> exn + json list" where
  "py_iter (JArr xs) = Inr xs"
| "py_iter (JStr s) = Inr (map (\<lambda>c. JStr [c]) s)"
| "py_iter (JObj kvs) = Inr (map (\<lambda>kv. JStr (fst kv)) kvs)"
| "py_iter v = Inl (TypeError (quoted (type_name v) @ '' object is not iterable''))"

fun py_len :: "json \<Rightarrow> exn + int" where
  "py_len (JArr xs) = Inr (int (length xs))"
| "py_len (JStr s) = Inr (int (length s))"
| "py_len (JObj kvs) = Inr (int (length kvs))"
| "py_len v = Inl (TypeError (''object of type '' @ quoted (type_name v) @ '' has no len()''))"

section \<open>The table and the session\<close>

text \<open>
  \<open>class TrialResult(db.Model)\<close>. An attribute of a pending object holds the Python
  value assigned to it, an attribute of a row of the table the value the column holds;
  \<open>row_id\<close> is the column \<open>id\<close>, unset until the row is inserted.
\<close>

record TrialResult =
  row_id :: "int option"
  participant_id :: json
  task_type :: json
  stimulus_word :: json
  stimulus_color :: json
  response_time :: json
  key_press :: json
  was_correct :: json
  avg_blink_rate :: json

text \<open>
  The database as the handler sees it: the committed rows, the rows inserted by the
  transaction in flight, and the objects added to the session and not yet flushed.
\<close>

record db =
  rows :: "TrialResult list"
  txn :: "TrialResult list"
  session :: "TrialResult list"

text \<open>
  The state in which a request finds the database: Flask-SQLAlchemy scopes \<open>db.session\<close>
  to the request, so no transaction is in flight and no object is pending.
\<close>

definition idle :: "db \<Rightarrow> bool" where
  "idle d = (txn d = [] \<and> session d = [])"

text \<open>The types of the columns: \<open>db.String(n)\<close>, \<open>db.Float\<close>, \<open>db.Boolean\<close>.\<close>

datatype column = StringCol | FloatCol | BooleanCol

text \<open>
  What the source leaves to the database engine: whether the INSERT of a row faults
  (a value the driver cannot bind, a size the engine enforces, a fault of the store) given
  the rows the transaction sees, whether the COMMIT faults, and how it converts a value
  for which no rule is written below.
\<close>

record engine =
  insert_fault :: "TrialResult list \<Rightarrow> TrialResult \<Rightarrow> string option"
  commit_fault :: "TrialResult list \<Rightarrow> string option"
  convert :: "column \<Rightarrow> json \<Rightarrow> json"

text \<open>
  An engine without faults, which keeps the values it has no rule for. SQLite, which
  \<open>SQLALCHEMY_DATABASE_URI\<close> names, is such an engine on rows whose values have the
  declared types: it does not enforce the size of a \<open>String(n)\<close> column.
\<close>

definition sound_engine :: engine where
  "sound_engine =
     \<lparr>insert_fault = (\<lambda>_ _. None), commit_fault = (\<lambda>_. None), convert = (\<lambda>_ v. v)\<rparr>"

text \<open>An integer in decimal, as the engine writes it into a text column.\<close>

definition digit :: "nat \<Rightarrow> char" where
  "digit n = ''0123456789'' ! n"

fun digits :: "nat \<Rightarrow> string" where
  "digits n = (if n < 10 then [digit n] else digits (n div 10) @ [digit (n mod 10)])"

definition int_text :: "int \<Rightarrow> string" where
  "int_text i = (if i < 0 then CHR 0x2D # digits (nat (- i)) else digits (nat i))"

text \<open>
  The value a column holds, and a query reads back, once a Python value has been inserted
  into it. \<open>None\<close> is NULL. A value of the column's own type is kept, but a NaN is stored
  as NULL. A text column keeps a string and turns an integer or a boolean (the integer 1
  or 0) into its decimal text; an integer beyond 64 bits is a fault of the driver. Every
  other case (a float in a text column, a value that is not a float in a float column or
  not a boolean in a boolean column) is the engine's.
\<close>

fun stored_value :: "engine \<Rightarrow> column \<Rightarrow> json \<Rightarrow> json" where
  "stored_value eng c JNull = JNull"
| "stored_value eng StringCol (JStr s) = JStr s"
| "stored_value eng StringCol (JInt i) = JStr (int_text i)"
| "stored_value eng StringCol (JBool b) = JStr (if b then ''1'' else ''0'')"
| "stored_value eng StringCol (JFloat NaN) = JNull"
| "stored_value eng FloatCol (JFloat NaN) = JNull"
| "stored_value eng FloatCol (JFloat f) = JFloat f"
| "stored_value eng BooleanCol (JBool b) = JBool b"
| "stored_value eng c v = convert eng c v"

text \<open>The row as stored: each attribute converted for its column of \<open>TrialResult\<close>.\<close>

definition stored_row :: "engine \<Rightarrow> TrialResult \<Rightarrow> TrialResult" where
  "stored_row eng r =
     \<lparr>row_id = row_id r,
      participant_id = stored_value eng StringCol (participant_id r),
      task_type = stored_value eng StringCol (task_type r),
      stimulus_word = stored_value eng StringCol (stimulus_word r),
      stimulus_color = stored_value eng StringCol (stimulus_color r),
      response_time = stored_value eng FloatCol (response_time r),
      key_press = stored_value eng StringCol (key_press r),
      was_correct = stored_value eng BooleanCol (was_correct r),
      avg_blink_rate = stored_value eng FloatCol (avg_blink_rate r)\<rparr>"

text \<open>
  The columns declared \<open>nullable=False\<close> (the primary key is assigned by the engine):
  the first of them that is NULL in a row.
\<close>

definition first_null :: "TrialResult \<Rightarrow> string option" where
  "first_null r =
     (if participant_id r = JNull then Some ''participant_id''
      else if task_type r = JNull then Some ''task_type''
      else if stimulus_word r = JNull then Some ''stimulus_word''
      else if stimulus_color r = JNull then Some ''stimulus_color''
      else None)"

text \<open>The integer primary key: one more than the largest in the table.\<close>

definition next_id :: "TrialResult list \<Rightarrow> int" where
  "next_id rs = fold max (List.map_filter row_id rs) 0 + 1"

text \<open>
  The INSERT of one object: the driver binds its values or faults, the engine converts
  them, checks the NOT NULL constraints on what it is about to store, and assigns the key.
\<close>

definition insert_row :: "engine \<Rightarrow> TrialResult list \<Rightarrow> TrialResult \<Rightarrow> exn + TrialResult" where
  "insert_row eng seen r =
     (case insert_fault eng seen r of
        Some m \<Rightarrow> Inl (DBAPIError m)
      | None \<Rightarrow>
          (case first_null (stored_row eng r) of
             Some c \<Rightarrow> Inl (IntegrityError (''NOT NULL constraint failed: trial_result.'' @ c))
           | None \<Rightarrow> Inr ((stored_row eng r)\<lparr>row_id := Some (next_id seen)\<rparr>)))"

text \<open>\<open>db.session.add\<close>.\<close>

definition session_add :: "TrialResult \<Rightarrow> db \<Rightarrow> db" where
  "session_add r d = d\<lparr>session := session d @ [r]\<rparr>"

text \<open>
  The flush inserts the pending objects in the order they were added; an exception
  leaves the transaction as far as it got.
\<close>

fun flush :: "engine \<Rightarrow> TrialResult list \<Rightarrow> db \<Rightarrow> exn option \<times> db" where
  "flush eng [] d = (None, d)"
| "flush eng (r # rs) d =
     (case insert_row eng (rows d @ txn d) r of
        Inl e \<Rightarrow> (Some e, d)
      | Inr r' \<Rightarrow> flush eng rs (d\<lparr>txn := txn d @ [r']\<rparr>))"

text \<open>\<open>db.session.commit\<close>: flush, then make the transaction's rows visible.\<close>

definition commit :: "engine \<Rightarrow> db \<Rightarrow> exn option \<times> db" where
  "commit eng d =
     (case flush eng (session d) d of
        (Some e, d1) \<Rightarrow> (Some e, d1)
      | (None, d1) \<Rightarrow>
          (case commit_fault eng (rows d1 @ txn d1) of
             Some m \<Rightarrow> (Some (DBAPIError m), d1)
           | None \<Rightarrow> (None, \<lparr>rows = rows d1 @ txn d1, txn = [], session = []\<rparr>)))"

text \<open>\<open>db.session.rollback\<close>.\<close>

definition rollback :: "db \<Rightarrow> db" where
  "rollback d = d\<lparr>txn := [], session := []\<rparr>"

section \<open>The endpoint\<close>

record response =
  status_code :: nat
  body :: json

text \<open>\<open>request.get_json()\<close> raises (no JSON in the body) or returns the parsed value.\<close>

datatype request = GetJsonRaises string | GetJsonReturns json

fun get_json :: "request \<Rightarrow> exn + json" where
  "get_json (GetJsonRaises m) = Inl (HTTPException m)"
| "get_json (GetJsonReturns v) = Inr v"

definition bad_request :: response where
  "bad_request =
     \<lparr>status_code = 400,
      body = JObj [(''status'', JStr ''error''),
                   (''message'', JStr ''Missing participant_id or trials data'')]\<rparr>"

definition created :: "int \<Rightarrow> response" where
  "created n =
     \<lparr>status_code = 201,
      body = JObj [(''status'', JStr ''success''), (''trials_saved'', JInt n)]\<rparr>"

definition server_error :: "string \<Rightarrow> response" where
  "server_error m =
     \<lparr>status_code = 500,
      body = JObj [(''status'', JStr ''error''), (''message'', JStr m)]\<rparr>"

text \<open>\<open>TrialResult(participant_id=participant_id, task_type=trial_data.get('task_type'), ...)\<close>.\<close>

definition new_trial :: "json \<Rightarrow> (string \<times> json) list \<Rightarrow> TrialResult" where
  "new_trial pid t =
     \<lparr>row_id = None,
      participant_id = pid,
      task_type = dict_get t ''task_type'',
      stimulus_word = dict_get t ''stimulus_word'',
      stimulus_color = dict_get t ''stimulus_color'',
      response_time = dict_get t ''response_time'',
      key_press = dict_get t ''key_press'',
      was_correct = dict_get t ''was_correct'',
      avg_blink_rate = dict_get t ''avg_blink_rate''\<rparr>"

text \<open>
  The loop over the trials. The first \<open>trial_data.get\<close> raises when the element is not a
  dict; the objects added before stay in the session.
\<close>

fun for_trials :: "json \<Rightarrow> json list \<Rightarrow> db \<Rightarrow> exn option \<times> db" where
  "for_trials pid [] d = (None, d)"
| "for_trials pid (JObj kvs # ts) d = for_trials pid ts (session_add (new_trial pid kvs) d)"
| "for_trials pid (t # ts) d = (Some (no_attribute t ''get''), d)"

text \<open>The body of the \<open>try\<close>: the response, or the exception, with the database as left.\<close>

definition try_block :: "engine \<Rightarrow> request \<Rightarrow> db \<Rightarrow> (exn + response) \<times> db" where
  "try_block eng req d =
     (case get_json req of
        Inl e \<Rightarrow> (Inl e, d)
      | Inr data \<Rightarrow>
     (case py_get data ''participant_id'' of
        Inl e \<Rightarrow> (Inl e, d)
      | Inr pid \<Rightarrow>
     (case py_get data ''trials'' of
        Inl e \<Rightarrow> (Inl e, d)
      | Inr trials \<Rightarrow>
     if \<not> truthy pid \<or> \<not> truthy trials then (Inr bad_request, d)
     else
     (case py_iter trials of
        Inl e \<Rightarrow> (Inl e, d)
      | Inr ts \<Rightarrow>
     (case for_trials pid ts d of
        (Some e, d1) \<Rightarrow> (Inl e, d1)
      | (None, d1) \<Rightarrow>
     (case commit eng d1 of
        (Some e, d2) \<Rightarrow> (Inl e, d2)
      | (None, d2) \<Rightarrow>
     (case py_len trials of
        Inl e \<Rightarrow> (Inl e, d2)
      | Inr n \<Rightarrow> (Inr (created n), d2))))))))"

text \<open>The handler: the \<open>try\<close> block, and the \<open>except Exception\<close> clause around it.\<close>

definition submit_data :: "engine \<Rightarrow> request \<Rightarrow> db \<Rightarrow> response \<times> db" where
  "submit_data eng req d =
     (case try_block eng req d of
        (Inr resp, d1) \<Rightarrow> (resp, d1)
      | (Inl e, d1) \<Rightarrow> (server_error (str e), rollback d1))"

section \<open>Vocabulary of the properties\<close>

text \<open>A row without its primary key.\<close>

definition unsaved :: "TrialResult \<Rightarrow> TrialResult" where
  "unsaved r = r\<lparr>row_id := None\<rparr>"

text \<open>An empty table with nothing in flight.\<close>

definition empty_db :: db where
  "empty_db = \<lparr>rows = [], txn = [], session = []\<rparr>"

text \<open>The trial of the scenario in section 8 of the specification.\<close>

definition scenario_trial :: "(string \<times> json) list" where
  "scenario_trial =
     [(''task_type'', JStr ''stroop_congruent''), (''stimulus_word'', JStr ''RED''),
      (''stimulus_color'', JStr ''red''), (''response_time'', JFloat (Finite 0.532)),
      (''key_press'', JStr ''r''), (''was_correct'', JBool True),
      (''avg_blink_rate'', JFloat (Finite 14.2))]"

text \<open>A request whose body is the JSON object with the two top-level fields.\<close>

definition submission :: "json \<Rightarrow> json \<Rightarrow> request" where
  "submission pid trials =
     GetJsonReturns (JObj [(''participant_id'', pid), (''trials'', trials)])"

text \<open>A simulated store fault: every INSERT faults once the transaction sees \<open>n\<close> rows.\<close>

definition fault_after :: "nat \<Rightarrow> engine" where
  "fault_after n =
     \<lparr>insert_fault = (\<lambda>seen r. if n \<le> length seen then Some ''disk I/O error'' else None),
      commit_fault = (\<lambda>_. None), convert = (\<lambda>_ v. v)\<rparr>"

text \<open>The rows a batch leaves in the table, but for their keys.\<close>

definition stored_trials :: "engine \<Rightarrow> json \<Rightarrow> (string \<times> json) list list \<Rightarrow> TrialResult list" where
  "stored_trials eng p objs = map (\<lambda>t. stored_row eng (new_trial p t)) objs"

text \<open>
  The engine raises no fault on this batch: not on the INSERT of any of its objects, each
  seeing the table and the rows inserted before it, and not on the COMMIT that follows.
\<close>

fun no_fault_on :: "engine \<Rightarrow> TrialResult list \<Rightarrow> TrialResult list \<Rightarrow> bool" where
  "no_fault_on eng seen [] = (commit_fault eng seen = None)"
| "no_fault_on eng seen (r # rs) =
     (insert_fault eng seen r = None \<and>
      no_fault_on eng (seen @ [(stored_row eng r)\<lparr>row_id := Some (next_id seen)\<rparr>]) rs)"

text \<open>A trial object that carries its three required fields, none of them null.\<close>

definition required_present :: "(string \<times> json) list \<Rightarrow> bool" where
  "required_present t =
     (dict_get t ''task_type'' \<noteq> JNull \<and> dict_get t ''stimulus_word'' \<noteq> JNull \<and>
      dict_get t ''stimulus_color'' \<noteq> JNull)"

text \<open>A trial object whose three required fields are not NULL once stored.\<close>

definition required_stored :: "engine \<Rightarrow> (string \<times> json) list \<Rightarrow> bool" where
  "required_stored eng t =
     (stored_value eng StringCol (dict_get t ''task_type'') \<noteq> JNull \<and>
      stored_value eng StringCol (dict_get t ''stimulus_word'') \<noteq> JNull \<and>
      stored_value eng StringCol (dict_get t ''stimulus_color'') \<noteq> JNull)"

text \<open>A trial object whose three required fields are strings, as section 3 types them.\<close>

definition required_strings :: "(string \<times> json) list \<Rightarrow> bool" where
  "required_strings t =
     (\<exists>a b c. dict_get t ''task_type'' = JStr a \<and> dict_get t ''stimulus_word'' = JStr b \<and>
        dict_get t ''stimulus_color'' = JStr c)"

text \<open>What holds of every row of the table: the four \<open>nullable=False\<close> columns are not NULL.\<close>

definition row_ok :: "TrialResult \<Rightarrow> bool" where
  "row_ok r =
     (participant_id r \<noteq> JNull \<and> task_type r \<noteq> JNull \<and> stimulus_word r \<noteq> JNull \<and>
      stimulus_color r \<noteq> JNull)"

section \<open>The loop, the flush and the commit\<close>

lemma for_trials_objects:
  "for_trials pid (map JObj objs) d = (None, d\<lparr>session := session d @ map (new_trial pid) objs\<rparr>)"
  by (induction objs arbitrary: d) (simp_all add: session_add_def)

lemma for_trials_None:
  "for_trials pid ts d = (None, d1) \<Longrightarrow> \<exists>objs. ts = map JObj objs"
proof (induction pid ts d rule: for_trials.induct)
  case (2 pid kvs ts d)
  then obtain objs where "ts = map JObj objs" by auto
  then have "JObj kvs # ts = map JObj (kvs # objs)" by simp
  then show ?case by (rule exI[of _ "kvs # objs"])
qed simp_all

lemma for_trials_keeps:
  "for_trials pid ts d = (r, d1) \<Longrightarrow> rows d1 = rows d \<and> txn d1 = txn d"
  by (induction pid ts d rule: for_trials.induct) (auto simp: session_add_def)

lemma unsaved_stored_new_trial:
  "unsaved (stored_row eng (new_trial p t)) = stored_row eng (new_trial p t)"
  by (simp add: unsaved_def stored_row_def new_trial_def)

lemma insert_row_Inr:
  "insert_row eng seen r = Inr r' \<Longrightarrow>
     r' = (stored_row eng r)\<lparr>row_id := Some (next_id seen)\<rparr> \<and>
     unsaved r' = unsaved (stored_row eng r) \<and> first_null (stored_row eng r) = None"
  by (auto simp: insert_row_def unsaved_def split: option.splits)

lemma flush_keeps:
  "flush eng ps d = (r, d1) \<Longrightarrow> rows d1 = rows d \<and> session d1 = session d"
  by (induction eng ps d rule: flush.induct) (auto split: sum.splits)

lemma flush_None:
  "flush eng ps d = (None, d1) \<Longrightarrow>
     \<exists>new. d1 = d\<lparr>txn := txn d @ new\<rparr> \<and>
           map unsaved new = map (\<lambda>r. unsaved (stored_row eng r)) ps"
proof (induction eng ps d rule: flush.induct)
  case (1 eng d)
  then show ?case by auto
next
  case (2 eng r rs d)
  then obtain r' where r': "insert_row eng (rows d @ txn d) r = Inr r'"
    by (auto split: sum.splits)
  with 2 obtain new where
    "d1 = d\<lparr>txn := txn d @ [r']\<rparr>\<lparr>txn := txn (d\<lparr>txn := txn d @ [r']\<rparr>) @ new\<rparr>"
    "map unsaved new = map (\<lambda>r. unsaved (stored_row eng r)) rs" by auto
  with insert_row_Inr[OF r']
  have "d1 = d\<lparr>txn := txn d @ (r' # new)\<rparr> \<and>
        map unsaved (r' # new) = map (\<lambda>r. unsaved (stored_row eng r)) (r # rs)"
    by (simp add: unsaved_def)
  then show ?case by blast
qed

lemma flush_None_not_null:
  "flush eng ps d = (None, d1) \<Longrightarrow> list_all (\<lambda>r. first_null (stored_row eng r) = None) ps"
  by (induction eng ps d rule: flush.induct) (auto split: sum.splits dest: insert_row_Inr)

lemma commit_Some:
  "commit eng d = (Some e, d1) \<Longrightarrow> rows d1 = rows d"
  by (auto simp: commit_def split: prod.splits option.splits dest: flush_keeps)

lemma commit_None:
  assumes "commit eng d = (None, d1)"
  shows "\<exists>new. d1 = \<lparr>rows = rows d @ txn d @ new, txn = [], session = []\<rparr> \<and>
           map unsaved new = map (\<lambda>r. unsaved (stored_row eng r)) (session d) \<and>
           list_all (\<lambda>r. first_null (stored_row eng r) = None) (session d)"
proof -
  from assms obtain d0 where fl: "flush eng (session d) d = (None, d0)"
    and d1: "d1 = \<lparr>rows = rows d0 @ txn d0, txn = [], session = []\<rparr>"
    by (auto simp: commit_def split: prod.splits option.splits)
  from flush_None[OF fl] obtain new where
    "d0 = d\<lparr>txn := txn d @ new\<rparr>"
    "map unsaved new = map (\<lambda>r. unsaved (stored_row eng r)) (session d)" by blast
  with d1 flush_None_not_null[OF fl] show ?thesis by simp
qed

lemma flush_succeeds:
  assumes "no_fault_on eng (rows d @ txn d) ps"
    and "list_all (\<lambda>r. first_null (stored_row eng r) = None) ps"
  shows "\<exists>d1. flush eng ps d = (None, d1) \<and> commit_fault eng (rows d1 @ txn d1) = None"
  using assms
proof (induction ps arbitrary: d)
  case Nil
  then show ?case by simp
next
  case (Cons r rs)
  let ?r' = "(stored_row eng r)\<lparr>row_id := Some (next_id (rows d @ txn d))\<rparr>"
  from Cons.prems have ins: "insert_row eng (rows d @ txn d) r = Inr ?r'"
    by (simp add: insert_row_def)
  from Cons.prems have "no_fault_on eng (rows (d\<lparr>txn := txn d @ [?r']\<rparr>) @ txn (d\<lparr>txn := txn d @ [?r']\<rparr>)) rs"
    by simp
  from Cons.IH[OF this] Cons.prems(2) ins show ?case by simp
qed

lemma commit_succeeds:
  assumes "no_fault_on eng (rows d @ txn d) (session d)"
    and "list_all (\<lambda>r. first_null (stored_row eng r) = None) (session d)"
  shows "\<exists>d2. commit eng d = (None, d2)"
  using flush_succeeds[OF assms] by (auto simp: commit_def)

lemma commit_null_fails:
  assumes "\<not> list_all (\<lambda>r. first_null (stored_row eng r) = None) (session d)"
  shows "\<exists>e d2. commit eng d = (Some e, d2) \<and> rows d2 = rows d"
proof (cases "commit eng d")
  case (Pair r d2)
  show ?thesis
  proof (cases r)
    case None
    with Pair commit_None[of eng d d2] assms show ?thesis by auto
  next
    case (Some e)
    with Pair commit_Some[of eng d e d2] show ?thesis by simp
  qed
qed

lemma py_iter_objects:
  assumes "py_iter trials = Inr (map JObj objs)" "truthy trials"
  shows "trials = JArr (map JObj objs) \<and> objs \<noteq> []"
proof (cases trials)
  case (JStr s)
  with assms show ?thesis by (cases s; cases objs) auto
next
  case (JObj kvs)
  with assms show ?thesis by (cases kvs; cases objs) auto
qed (use assms in auto)

lemma py_iter_len: "py_iter trials = Inr ts \<Longrightarrow> \<exists>n. py_len trials = Inr n"
  by (cases trials) auto

lemma try_block_Inl:
  assumes "try_block eng req d = (Inl e, d1)"
  shows "rows d1 = rows d"
  using assms
  by (auto simp: try_block_def split: sum.splits if_splits prod.splits option.splits
      dest!: for_trials_keeps commit_Some py_iter_len)

lemma try_block_Inr:
  assumes "try_block eng req d = (Inr resp, d1)"
  shows "(resp = bad_request \<and> d1 = d) \<or>
         (\<exists>kvs objs new. req = GetJsonReturns (JObj kvs) \<and>
            truthy (dict_get kvs ''participant_id'') \<and>
            dict_get kvs ''trials'' = JArr (map JObj objs) \<and> objs \<noteq> [] \<and>
            resp = created (int (length objs)) \<and>
            d1 = \<lparr>rows = rows d @ txn d @ new, txn = [], session = []\<rparr> \<and>
            map unsaved new =
              map (\<lambda>r. unsaved (stored_row eng r)) (session d) @
              stored_trials eng (dict_get kvs ''participant_id'') objs \<and>
            list_all (\<lambda>r. first_null r = None)
              (stored_trials eng (dict_get kvs ''participant_id'') objs))"
proof (cases "resp = bad_request \<and> d1 = d")
  case True
  then show ?thesis by simp
next
  case False
  from assms obtain data where data: "req = GetJsonReturns data"
    by (cases req) (auto simp: try_block_def)
  from assms data obtain kvs where kvs: "data = JObj kvs"
    by (cases data) (auto simp: try_block_def)
  let ?pid = "dict_get kvs ''participant_id''"
  let ?trials = "dict_get kvs ''trials''"
  from assms data kvs False have tr: "truthy ?pid" "truthy ?trials"
    by (auto simp: try_block_def split: if_splits)
  with assms data kvs obtain ts da db n where
    it: "py_iter ?trials = Inr ts" and ft: "for_trials ?pid ts d = (None, da)"
    and cm: "commit eng da = (None, db)" and ln: "py_len ?trials = Inr n"
    and res: "resp = created n" "d1 = db"
    by (auto simp: try_block_def split: sum.splits prod.splits option.splits)
  from for_trials_None[OF ft] obtain objs where objs: "ts = map JObj objs" by blast
  from py_iter_objects[OF it[unfolded objs] tr(2)]
  have trials: "?trials = JArr (map JObj objs)" "objs \<noteq> []" by simp_all
  from ft objs have da: "da = d\<lparr>session := session d @ map (new_trial ?pid) objs\<rparr>"
    by (simp add: for_trials_objects)
  from commit_None[OF cm] da obtain new where
    new: "db = \<lparr>rows = rows d @ txn d @ new, txn = [], session = []\<rparr>"
      "map unsaved new =
         map (\<lambda>r. unsaved (stored_row eng r)) (session d @ map (new_trial ?pid) objs)"
      "list_all (\<lambda>r. first_null (stored_row eng r) = None)
         (session d @ map (new_trial ?pid) objs)"
    by auto
  have un: "map (\<lambda>r. unsaved (stored_row eng r)) (map (new_trial ?pid) objs) =
            stored_trials eng ?pid objs"
    by (simp add: stored_trials_def unsaved_stored_new_trial)
  from new(3) have nn: "list_all (\<lambda>r. first_null r = None) (stored_trials eng ?pid objs)"
    by (simp add: stored_trials_def list_all_iff)
  from ln trials have n: "n = int (length objs)" by simp
  from data kvs tr(1) trials res n new(1,2) un nn show ?thesis
    by (intro disjI2 exI[of _ kvs] exI[of _ objs] exI[of _ new]) simp
qed

section \<open>The handler on a well-formed body\<close>

lemmas eval_defs =
  submit_data_def try_block_def commit_def insert_row_def first_null_def new_trial_def
  dict_get_def session_add_def next_id_def rollback_def sound_engine_def created_def
  bad_request_def server_error_def empty_db_def scenario_trial_def submission_def
  fault_after_def idle_def unsaved_def no_attribute_def quoted_def List.map_filter_def
  stored_row_def stored_trials_def int_text_def digit_def

lemma submit_data_201:
  assumes "dict_get kvs ''participant_id'' = p" "truthy p"
    and "dict_get kvs ''trials'' = JArr (map JObj objs)" "objs \<noteq> []"
    and "commit eng (d\<lparr>session := session d @ map (new_trial p) objs\<rparr>) = (None, d2)"
  shows "submit_data eng (GetJsonReturns (JObj kvs)) d = (created (int (length objs)), d2)"
  using assms by (simp add: submit_data_def try_block_def for_trials_objects)

lemma submit_data_500:
  assumes "dict_get kvs ''participant_id'' = p" "truthy p"
    and "dict_get kvs ''trials'' = JArr (map JObj objs)" "objs \<noteq> []"
    and "commit eng (d\<lparr>session := session d @ map (new_trial p) objs\<rparr>) = (Some e, d2)"
  shows "submit_data eng (GetJsonReturns (JObj kvs)) d = (server_error (str e), rollback d2)"
  using assms by (simp add: submit_data_def try_block_def for_trials_objects)

lemma stored_trials_rows:
  assumes "map unsaved new = stored_trials eng p objs"
  shows "length new = length objs"
    and "list_all (\<lambda>r. participant_id r = stored_value eng StringCol p) new"
proof -
  show "length new = length objs"
    using assms by (auto simp: stored_trials_def dest: map_eq_imp_length_eq)
  have "participant_id r = stored_value eng StringCol p" if "r \<in> set new" for r
  proof -
    from that have "unsaved r \<in> set (map unsaved new)" by simp
    with assms obtain t where "unsaved r = stored_row eng (new_trial p t)"
      by (auto simp: stored_trials_def)
    then have "participant_id (unsaved r) = stored_value eng StringCol p"
      by (simp add: new_trial_def stored_row_def)
    then show ?thesis by (simp add: unsaved_def)
  qed
  then show "list_all (\<lambda>r. participant_id r = stored_value eng StringCol p) new"
    by (simp add: list_all_iff)
qed

lemma falsy_field_400:
  assumes "\<not> truthy (dict_get kvs ''participant_id'') \<or> \<not> truthy (dict_get kvs ''trials'')"
  shows "submit_data eng (GetJsonReturns (JObj kvs)) d = (bad_request, d)"
  using assms by (auto simp: submit_data_def try_block_def)

lemma rollback_rows:
  "rollback d1 = \<lparr>rows = rows d1, txn = [], session = []\<rparr>"
  by (simp add: rollback_def)

lemma first_null_new_trial:
  "(first_null (stored_row eng (new_trial p t)) = None) =
     (stored_value eng StringCol p \<noteq> JNull \<and> required_stored eng t)"
  by (auto simp: first_null_def new_trial_def required_stored_def stored_row_def)

lemma required_stored_present: "required_stored eng t \<Longrightarrow> required_present t"
  by (auto simp: required_stored_def required_present_def)

lemma required_strings_stored: "required_strings t \<Longrightarrow> required_stored eng t"
  by (auto simp: required_stored_def required_strings_def)

lemma inj_JObj_map: "map JObj a = map JObj b \<Longrightarrow> a = b"
  by (simp add: inj_map_eq_map inj_def)

lemma submit_data_201_D:
  assumes "submit_data eng req d = (resp, d')" and "status_code resp = 201"
  shows "\<exists>kvs objs new. req = GetJsonReturns (JObj kvs) \<and>
            truthy (dict_get kvs ''participant_id'') \<and>
            dict_get kvs ''trials'' = JArr (map JObj objs) \<and> objs \<noteq> [] \<and>
            resp = created (int (length objs)) \<and>
            d' = \<lparr>rows = rows d @ txn d @ new, txn = [], session = []\<rparr> \<and>
            map unsaved new =
              map (\<lambda>r. unsaved (stored_row eng r)) (session d) @
              stored_trials eng (dict_get kvs ''participant_id'') objs \<and>
            list_all (\<lambda>r. first_null r = None)
              (stored_trials eng (dict_get kvs ''participant_id'') objs)"
proof (cases "try_block eng req d")
  case (Pair res d1)
  show ?thesis
  proof (cases res)
    case (Inl e)
    with Pair assms show ?thesis
      by (auto simp: submit_data_def server_error_def)
  next
    case (Inr r)
    with Pair assms have "try_block eng req d = (Inr resp, d')"
      by (simp add: submit_data_def)
    from try_block_Inr[OF this] assms(2) show ?thesis
      by (auto simp: bad_request_def)
  qed
qed

lemma try_block_not_objects:
  assumes "truthy (dict_get kvs ''participant_id'')" and "truthy (dict_get kvs ''trials'')"
    and "\<not> (\<exists>objs. dict_get kvs ''trials'' = JArr (map JObj objs))"
  shows "\<exists>e d1. try_block eng (GetJsonReturns (JObj kvs)) d = (Inl e, d1)"
proof (cases "try_block eng (GetJsonReturns (JObj kvs)) d")
  case (Pair res d1)
  show ?thesis
  proof (cases res)
    case (Inl e)
    with Pair show ?thesis by simp
  next
    case (Inr resp)
    with Pair try_block_Inr[of eng "GetJsonReturns (JObj kvs)" d resp d1] assms
    have "resp = bad_request" by auto
    with Pair Inr assms(1,2) show ?thesis
      by (auto simp: try_block_def bad_request_def created_def
          split: sum.splits prod.splits option.splits)
  qed
qed

lemma row_ok_unsaved: "row_ok (unsaved r) = row_ok r"
  by (simp add: row_ok_def unsaved_def)

lemma built_rows_ok:
  assumes "map unsaved new = stored_trials eng p objs"
    and "list_all (\<lambda>r. first_null r = None) (stored_trials eng p objs)"
  shows "list_all row_ok new"
proof -
  have "row_ok r" if "r \<in> set new" for r
  proof -
    from that have "unsaved r \<in> set (map unsaved new)" by simp
    with assms(1) have "unsaved r \<in> set (stored_trials eng p objs)" by simp
    with assms(2) have "first_null (unsaved r) = None" by (simp add: list_all_iff)
    then have "row_ok (unsaved r)"
      by (simp add: first_null_def row_ok_def split: if_splits)
    then show ?thesis by (simp add: row_ok_unsaved)
  qed
  then show ?thesis by (simp add: list_all_iff)
qed

lemma submit_data_not_201:
  assumes "submit_data eng req d = (resp, d')" and "status_code resp \<noteq> 201"
  shows "rows d' = rows d"
proof (cases "try_block eng req d")
  case (Pair res d1)
  show ?thesis
  proof (cases res)
    case (Inl e)
    with Pair assms(1) try_block_Inl[of eng req d e d1]
    show ?thesis by (auto simp: submit_data_def rollback_def)
  next
    case (Inr r)
    with Pair assms try_block_Inr[of eng req d r d1]
    show ?thesis by (auto simp: submit_data_def created_def)
  qed
qed

lemma submit_data_new_rows:
  assumes "idle d"
  shows "\<exists>new. rows (snd (submit_data eng req d)) = rows d @ new \<and>
           (new = [] \<or>
            (\<exists>kvs objs. req = GetJsonReturns (JObj kvs) \<and>
               truthy (dict_get kvs ''participant_id'') \<and>
               dict_get kvs ''trials'' = JArr (map JObj objs) \<and>
               map unsaved new = stored_trials eng (dict_get kvs ''participant_id'') objs \<and>
               list_all (\<lambda>r. first_null r = None)
                 (stored_trials eng (dict_get kvs ''participant_id'') objs)))"
proof (cases "submit_data eng req d")
  case (Pair resp d')
  from assms have txn: "txn d = []" and ses: "session d = []"
    by (simp_all add: idle_def)
  show ?thesis
  proof (cases "status_code resp = 201")
    case True
    from submit_data_201_D[OF Pair True] txn ses obtain kvs objs new where
      req: "req = GetJsonReturns (JObj kvs)" "dict_get kvs ''trials'' = JArr (map JObj objs)"
      and p: "truthy (dict_get kvs ''participant_id'')"
      and d': "d' = \<lparr>rows = rows d @ new, txn = [], session = []\<rparr>"
      and new: "map unsaved new = stored_trials eng (dict_get kvs ''participant_id'') objs"
      and nn: "list_all (\<lambda>r. first_null r = None)
                 (stored_trials eng (dict_get kvs ''participant_id'') objs)"
      by auto
    from Pair d' have "rows (snd (submit_data eng req d)) = rows d @ new" by simp
    with req p new nn show ?thesis by blast
  next
    case False
    from submit_data_not_201[OF Pair False] Pair show ?thesis by simp
  qed
qed

lemma stored_float: "f \<noteq> NaN \<Longrightarrow> stored_value eng FloatCol (JFloat f) = JFloat f"
  by (cases f) simp_all

section \<open>Claims\<close>

text \<open>
  C1. A request whose JSON body has a non-empty (truthy) \<open>participant_id\<close> and a
  non-empty \<open>trials\<close> list of N trial objects, handled with nothing in flight: if the
  commit succeeds, the response is 201 with body
  \<open>{"status": "success", "trials_saved": N}\<close>, and the table has grown by exactly N rows,
  the rows the handler built as the store holds them, each with the request's
  \<open>participant_id\<close>: the very string, when it is a string.
\<close>

theorem valid_submission_saves_all:
  assumes "idle d"
    and "dict_get kvs ''participant_id'' = p" and "truthy p"
    and "dict_get kvs ''trials'' = JArr (map JObj objs)" and "objs \<noteq> []"
    and "fst (commit eng (d\<lparr>session := map (new_trial p) objs\<rparr>)) = None"
  shows "\<exists>new. submit_data eng (GetJsonReturns (JObj kvs)) d =
           (\<lparr>status_code = 201,
             body = JObj [(''status'', JStr ''success''),
                          (''trials_saved'', JInt (int (length objs)))]\<rparr>,
            \<lparr>rows = rows d @ new, txn = [], session = []\<rparr>) \<and>
         length new = length objs \<and>
         map unsaved new = stored_trials eng p objs \<and>
         list_all (\<lambda>r. participant_id r = stored_value eng StringCol p) new \<and>
         (\<forall>s. p = JStr s \<longrightarrow> list_all (\<lambda>r. participant_id r = p) new)"
proof -
  let ?d1 = "d\<lparr>session := session d @ map (new_trial p) objs\<rparr>"
  from assms(1) have d1: "?d1 = d\<lparr>session := map (new_trial p) objs\<rparr>"
    and txn: "txn d = []" and ses: "session d = []"
    by (simp_all add: idle_def)
  from assms(6) d1 obtain d2 where cm: "commit eng ?d1 = (None, d2)"
    by (cases "commit eng ?d1") simp
  from commit_None[OF cm] txn ses obtain new where
    d2: "d2 = \<lparr>rows = rows d @ new, txn = [], session = []\<rparr>"
    and new: "map unsaved new = stored_trials eng p objs"
    by (auto simp: stored_trials_def unsaved_stored_new_trial)
  from submit_data_201[OF assms(2-5) cm]
  have res: "submit_data eng (GetJsonReturns (JObj kvs)) d =
          (\<lparr>status_code = 201,
            body = JObj [(''status'', JStr ''success''),
                         (''trials_saved'', JInt (int (length objs)))]\<rparr>,
           \<lparr>rows = rows d @ new, txn = [], session = []\<rparr>)"
    by (simp add: created_def d2)
  note st = stored_trials_rows[OF new]
  from st(2) have "\<forall>s. p = JStr s \<longrightarrow> list_all (\<lambda>r. participant_id r = p) new"
    by auto
  with res new st show ?thesis by blast
qed

theorem valid_submission_saves_all_witness:
  "\<exists>new. submit_data sound_engine
            (GetJsonReturns (JObj [(''participant_id'', JStr ''P1''),
                                   (''trials'', JArr (map JObj [scenario_trial, scenario_trial]))]))
            empty_db =
           (\<lparr>status_code = 201,
             body = JObj [(''status'', JStr ''success''),
                          (''trials_saved'', JInt (int (length [scenario_trial, scenario_trial])))]\<rparr>,
            \<lparr>rows = rows empty_db @ new, txn = [], session = []\<rparr>) \<and>
         length new = length [scenario_trial, scenario_trial] \<and>
         map unsaved new = stored_trials sound_engine (JStr ''P1'') [scenario_trial, scenario_trial] \<and>
         list_all (\<lambda>r. participant_id r = stored_value sound_engine StringCol (JStr ''P1'')) new \<and>
         (\<forall>s. JStr ''P1'' = JStr s \<longrightarrow> list_all (\<lambda>r. participant_id r = JStr ''P1'') new)"
proof (rule valid_submission_saves_all)
  show "idle empty_db" by (simp add: eval_defs)
  show "truthy (JStr ''P1'')" by simp
  show "[scenario_trial, scenario_trial] \<noteq> []" by simp
  show "fst (commit sound_engine (empty_db\<lparr>session := map (new_trial (JStr ''P1'')) [scenario_trial, scenario_trial]\<rparr>)) = None"
    by (simp add: eval_defs)
qed (simp_all add: dict_get_def)

text \<open>
  C2 (as amended). A request whose body is a JSON object in which \<open>participant_id\<close> is
  absent or the empty string, or \<open>trials\<close> is absent or the empty list, is answered 400
  with body exactly \<open>{"status": "error", "message": "Missing participant_id or trials data"}\<close>,
  and the database is left as it was: no row is added, with any engine.
\<close>

theorem missing_field_answers_400:
  assumes "map_of kvs ''participant_id'' = None \<or> map_of kvs ''participant_id'' = Some (JStr [])
         \<or> map_of kvs ''trials'' = None \<or> map_of kvs ''trials'' = Some (JArr [])"
  shows "submit_data eng (GetJsonReturns (JObj kvs)) d =
           (\<lparr>status_code = 400,
             body = JObj [(''status'', JStr ''error''),
                          (''message'', JStr ''Missing participant_id or trials data'')]\<rparr>,
            d)"
proof -
  from assms have "\<not> truthy (dict_get kvs ''participant_id'') \<or> \<not> truthy (dict_get kvs ''trials'')"
    by (auto simp: dict_get_def)
  from falsy_field_400[OF this] show ?thesis by (simp add: bad_request_def)
qed

theorem missing_field_answers_400_witness:
  "submit_data (fault_after 0)
     (GetJsonReturns (JObj [(''participant_id'', JStr []), (''trials'', JArr [JObj scenario_trial])]))
     \<lparr>rows = [new_trial (JStr ''P0'') scenario_trial\<lparr>row_id := Some 7\<rparr>], txn = [], session = []\<rparr> =
     (\<lparr>status_code = 400,
       body = JObj [(''status'', JStr ''error''),
                    (''message'', JStr ''Missing participant_id or trials data'')]\<rparr>,
      \<lparr>rows = [new_trial (JStr ''P0'') scenario_trial\<lparr>row_id := Some 7\<rparr>], txn = [], session = []\<rparr>)"
  by (rule missing_field_answers_400) simp

text \<open>
  C2 as stated covers every request. A body that is not a JSON object has no
  \<open>participant_id\<close> either, but \<open>data.get\<close> (or \<open>get_json\<close> itself) raises before the
  check, and the \<open>except\<close> clause answers 500: so for the JSON array \<open>[]\<close> and for a
  request without JSON.
\<close>

theorem missing_field_counterexample:
  "status_code (fst (submit_data sound_engine (GetJsonReturns (JArr [])) empty_db)) = 500 \<and>
   status_code (fst (submit_data sound_engine (GetJsonRaises ''415 Unsupported Media Type'') empty_db)) = 500"
  by (simp add: eval_defs)



text \<open>
  C6. The table is append-only: for every request, engine and state of the database, the
  rows present before the request are present after it, unchanged and in place; the
  handler can only add rows after them.
\<close>

theorem rows_only_grow:
  "\<exists>new. rows (snd (submit_data eng req d)) = rows d @ new"
proof (cases "try_block eng req d")
  case (Pair res d1)
  show ?thesis
  proof (cases res)
    case (Inl e)
    with Pair try_block_Inl[of eng req d e d1] show ?thesis
      by (simp add: submit_data_def rollback_def)
  next
    case (Inr resp)
    with Pair try_block_Inr[of eng req d resp d1] show ?thesis
      by (auto simp: submit_data_def)
  qed
qed

theorem rows_only_grow_witness:
  "\<exists>new. rows (snd (submit_data sound_engine (submission (JStr ''P1'') (JArr [JObj scenario_trial]))
       \<lparr>rows = [new_trial (JStr ''P0'') scenario_trial\<lparr>row_id := Some 7\<rparr>], txn = [], session = []\<rparr>)) =
     rows \<lparr>rows = [new_trial (JStr ''P0'') scenario_trial\<lparr>row_id := Some 7\<rparr>], txn = [], session = []\<rparr> @ new"
  by (rule rows_only_grow)

text \<open>
  C8. For every request, whatever its body (no JSON, a JSON value that is not an
  object, trials that are not objects), every engine and every state of the database, the
  handler returns one of the three JSON responses, 400, 201 or 500. The \<open>except\<close> clause
  itself (\<open>rollback\<close>, \<open>jsonify\<close>) is taken not to raise.
\<close>

theorem always_one_of_three_responses:
  "fst (submit_data eng req d) =
      \<lparr>status_code = 400,
       body = JObj [(''status'', JStr ''error''),
                    (''message'', JStr ''Missing participant_id or trials data'')]\<rparr> \<or>
   (\<exists>n. fst (submit_data eng req d) =
      \<lparr>status_code = 201,
       body = JObj [(''status'', JStr ''success''), (''trials_saved'', JInt n)]\<rparr>) \<or>
   (\<exists>m. fst (submit_data eng req d) =
      \<lparr>status_code = 500,
       body = JObj [(''status'', JStr ''error''), (''message'', JStr m)]\<rparr>)"
proof (cases "try_block eng req d")
  case (Pair res d1)
  show ?thesis
  proof (cases res)
    case (Inl e)
    with Pair show ?thesis
      by (simp add: submit_data_def server_error_def)
  next
    case (Inr resp)
    with Pair try_block_Inr[of eng req d resp d1] show ?thesis
      by (auto simp: submit_data_def bad_request_def created_def)
  qed
qed

theorem always_one_of_three_responses_witness:
  "fst (submit_data sound_engine (GetJsonRaises ''400 Bad Request'') empty_db) =
     \<lparr>status_code = 500,
      body = JObj [(''status'', JStr ''error''), (''message'', JStr ''400 Bad Request'')]\<rparr> \<and>
   fst (submit_data sound_engine (submission (JStr ''P1'') (JArr [JObj scenario_trial, JInt 3])) empty_db) =
     \<lparr>status_code = 500,
      body = JObj [(''status'', JStr ''error''),
                   (''message'', JStr (quoted ''int'' @ '' object has no attribute '' @ quoted ''get''))]\<rparr>"
  using always_one_of_three_responses[of sound_engine "GetJsonRaises ''400 Bad Request''" empty_db]
    always_one_of_three_responses[of sound_engine "submission (JStr ''P1'') (JArr [JObj scenario_trial, JInt 3])" empty_db]
  by (simp add: eval_defs)

text \<open>
  C4 (as amended). In a valid submission (a truthy \<open>participant_id\<close>, a non-empty list of
  trial objects, nothing in flight) a field absent from a trial object is \<open>None\<close> in its
  row. A trial without \<open>task_type\<close>, \<open>stimulus_word\<close> or \<open>stimulus_color\<close> has a NULL in
  a column declared \<open>nullable=False\<close>; a trial that carries the three as strings has
  none, and a \<open>participant_id\<close> that is a string is not NULL. When the
  \<open>participant_id\<close> and the three required fields of every trial are not NULL once
  stored, absent optional fields reject nothing: if the engine raises no fault
  on this batch, the whole batch is persisted and counted. Otherwise the commit fails,
  the response is 500 and no row of the batch is persisted, with any engine.
\<close>

theorem absent_trial_fields:
  assumes "idle d"
    and "dict_get kvs ''participant_id'' = p" and "truthy p"
    and "dict_get kvs ''trials'' = JArr (map JObj objs)" and "objs \<noteq> []"
  shows "(\<forall>t k. map_of t k = None \<longrightarrow> dict_get t k = JNull) \<and>
         (\<forall>t. \<not> required_present t \<longrightarrow> \<not> required_stored eng t) \<and>
         (\<forall>t. required_strings t \<longrightarrow> required_stored eng t) \<and>
         (\<forall>s. p = JStr s \<longrightarrow> stored_value eng StringCol p \<noteq> JNull) \<and>
         (if stored_value eng StringCol p \<noteq> JNull \<and> list_all (required_stored eng) objs
          then no_fault_on eng (rows d) (map (new_trial p) objs) \<longrightarrow>
            (\<exists>new. submit_data eng (GetJsonReturns (JObj kvs)) d =
               (\<lparr>status_code = 201,
                 body = JObj [(''status'', JStr ''success''),
                              (''trials_saved'', JInt (int (length objs)))]\<rparr>,
                \<lparr>rows = rows d @ new, txn = [], session = []\<rparr>) \<and>
               map unsaved new = stored_trials eng p objs)
          else
            (\<exists>m. submit_data eng (GetJsonReturns (JObj kvs)) d =
               (\<lparr>status_code = 500,
                 body = JObj [(''status'', JStr ''error''), (''message'', JStr m)]\<rparr>,
                \<lparr>rows = rows d, txn = [], session = []\<rparr>)))"
proof -
  let ?d1 = "d\<lparr>session := session d @ map (new_trial p) objs\<rparr>"
  let ?ok = "stored_value eng StringCol p \<noteq> JNull \<and> list_all (required_stored eng) objs"
  from assms(1) have txn: "txn d = []" and ses: "session d = []"
    by (simp_all add: idle_def)
  have nulls: "list_all (\<lambda>r. first_null (stored_row eng r) = None) (session ?d1) = ?ok"
    using assms(5) ses by (cases objs) (auto simp: list_all_iff first_null_new_trial)
  have absent: "\<forall>t k. map_of t k = None \<longrightarrow> dict_get t k = JNull"
    by (simp add: dict_get_def)
  have pres: "\<forall>t. \<not> required_present t \<longrightarrow> \<not> required_stored eng t"
    by (blast dest: required_stored_present)
  have strs: "\<forall>t. required_strings t \<longrightarrow> required_stored eng t"
    by (blast dest: required_strings_stored)
  have pstr: "\<forall>s. p = JStr s \<longrightarrow> stored_value eng StringCol p \<noteq> JNull"
    by auto
  show ?thesis
  proof (cases ?ok)
    case True
    have "\<exists>new. submit_data eng (GetJsonReturns (JObj kvs)) d =
               (\<lparr>status_code = 201,
                 body = JObj [(''status'', JStr ''success''),
                              (''trials_saved'', JInt (int (length objs)))]\<rparr>,
                \<lparr>rows = rows d @ new, txn = [], session = []\<rparr>) \<and>
               map unsaved new = stored_trials eng p objs"
      if nf: "no_fault_on eng (rows d) (map (new_trial p) objs)"
    proof -
      from nf txn ses have "no_fault_on eng (rows ?d1 @ txn ?d1) (session ?d1)" by simp
      from commit_succeeds[OF this] nulls True obtain d2 where cm: "commit eng ?d1 = (None, d2)"
        by blast
      from commit_None[OF cm] txn ses obtain new where
        "d2 = \<lparr>rows = rows d @ new, txn = [], session = []\<rparr>"
        "map unsaved new = stored_trials eng p objs"
        by (auto simp: stored_trials_def unsaved_stored_new_trial)
      with submit_data_201[OF assms(2-5) cm] show ?thesis
        by (auto simp: created_def)
    qed
    with True absent pres strs pstr show ?thesis by simp
  next
    case False
    with nulls commit_null_fails[of eng ?d1] obtain e d2 where
      cm: "commit eng ?d1 = (Some e, d2)" and "rows d2 = rows d" by auto
    with submit_data_500[OF assms(2-5) cm]
    have "submit_data eng (GetJsonReturns (JObj kvs)) d =
            (\<lparr>status_code = 500,
              body = JObj [(''status'', JStr ''error''), (''message'', JStr (str e))]\<rparr>,
             \<lparr>rows = rows d, txn = [], session = []\<rparr>)"
      by (simp add: server_error_def rollback_rows)
    then have "\<exists>m. submit_data eng (GetJsonReturns (JObj kvs)) d =
            (\<lparr>status_code = 500,
              body = JObj [(''status'', JStr ''error''), (''message'', JStr m)]\<rparr>,
             \<lparr>rows = rows d, txn = [], session = []\<rparr>)"
      by blast
    with False absent pres strs pstr show ?thesis by auto
  qed
qed

text \<open>
  C4 as stated fails on a trial without \<open>task_type\<close>: the batch is not persisted, the
  response is 500.
\<close>

theorem absent_trial_fields_counterexample:
  "submit_data sound_engine
     (submission (JStr ''P1'')
        (JArr [JObj [(''stimulus_word'', JStr ''RED''), (''stimulus_color'', JStr ''red'')]]))
     empty_db =
     (\<lparr>status_code = 500,
       body = JObj [(''status'', JStr ''error''),
                    (''message'', JStr ''NOT NULL constraint failed: trial_result.task_type'')]\<rparr>,
      empty_db)"
  by (simp add: eval_defs)

theorem absent_trial_fields_witness:
  "submit_data sound_engine
     (submission (JStr ''P1'')
        (JArr (map JObj [[(''task_type'', JStr ''stroop_congruent''),
                          (''stimulus_word'', JStr ''RED''), (''stimulus_color'', JStr ''red'')]])))
     empty_db =
     (\<lparr>status_code = 201,
       body = JObj [(''status'', JStr ''success''), (''trials_saved'', JInt 1)]\<rparr>,
      \<lparr>rows = [\<lparr>row_id = Some 1, participant_id = JStr ''P1'',
                 task_type = JStr ''stroop_congruent'', stimulus_word = JStr ''RED'',
                 stimulus_color = JStr ''red'', response_time = JNull, key_press = JNull,
                 was_correct = JNull, avg_blink_rate = JNull\<rparr>],
       txn = [], session = []\<rparr>) \<and>
   submit_data sound_engine
     (submission (JStr ''P1'')
        (JArr (map JObj [scenario_trial,
                         [(''task_type'', JStr ''stroop_congruent''),
                          (''stimulus_word'', JStr ''RED'')]])))
     empty_db =
     (\<lparr>status_code = 500,
       body = JObj [(''status'', JStr ''error''),
                    (''message'', JStr ''NOT NULL constraint failed: trial_result.stimulus_color'')]\<rparr>,
      \<lparr>rows = [], txn = [], session = []\<rparr>)"
  using
    absent_trial_fields[of empty_db
      "[(''participant_id'', JStr ''P1''),
        (''trials'', JArr (map JObj [[(''task_type'', JStr ''stroop_congruent''),
                          (''stimulus_word'', JStr ''RED''), (''stimulus_color'', JStr ''red'')]]))]"
      "JStr ''P1''"
      "[[(''task_type'', JStr ''stroop_congruent''),
         (''stimulus_word'', JStr ''RED''), (''stimulus_color'', JStr ''red'')]]"
      sound_engine]
    absent_trial_fields[of empty_db
      "[(''participant_id'', JStr ''P1''),
        (''trials'', JArr (map JObj [scenario_trial,
                         [(''task_type'', JStr ''stroop_congruent''),
                          (''stimulus_word'', JStr ''RED'')]]))]"
      "JStr ''P1''"
      "[scenario_trial, [(''task_type'', JStr ''stroop_congruent''), (''stimulus_word'', JStr ''RED'')]]"
      sound_engine]
  by (simp add: eval_defs)

text \<open>
  C5 (as amended). Every row a request adds, handled with nothing in flight, has
  \<open>participant_id\<close>, \<open>task_type\<close>, \<open>stimulus_word\<close> and \<open>stimulus_color\<close> not NULL; its
  \<open>participant_id\<close> is the request's truthy one as the store holds it, the same
  non-empty string when it is a string; apart from its key it is the row the handler
  built from the submitted values, which the handler neither measures nor truncates.
\<close>

theorem persisted_rows_constraints:
  assumes "idle d"
  shows "\<exists>new. rows (snd (submit_data eng req d)) = rows d @ new \<and>
           list_all row_ok new \<and>
           (new = [] \<or>
            (\<exists>kvs objs. req = GetJsonReturns (JObj kvs) \<and>
               truthy (dict_get kvs ''participant_id'') \<and>
               dict_get kvs ''trials'' = JArr (map JObj objs) \<and>
               map unsaved new = stored_trials eng (dict_get kvs ''participant_id'') objs \<and>
               list_all (\<lambda>r. participant_id r =
                               stored_value eng StringCol (dict_get kvs ''participant_id'')) new \<and>
               (\<forall>s. dict_get kvs ''participant_id'' = JStr s \<longrightarrow>
                    s \<noteq> [] \<and> list_all (\<lambda>r. participant_id r = JStr s) new)))"
proof -
  from submit_data_new_rows[OF assms, of eng req] obtain new where
    rows: "rows (snd (submit_data eng req d)) = rows d @ new"
    and new: "new = [] \<or>
      (\<exists>kvs objs. req = GetJsonReturns (JObj kvs) \<and>
         truthy (dict_get kvs ''participant_id'') \<and>
         dict_get kvs ''trials'' = JArr (map JObj objs) \<and>
         map unsaved new = stored_trials eng (dict_get kvs ''participant_id'') objs \<and>
         list_all (\<lambda>r. first_null r = None)
           (stored_trials eng (dict_get kvs ''participant_id'') objs))"
    by blast
  from new have ok: "list_all row_ok new"
    by (auto intro: built_rows_ok)
  show ?thesis
  proof (cases "new = []")
    case True
    with rows show ?thesis by auto
  next
    case False
    with new obtain kvs objs where req: "req = GetJsonReturns (JObj kvs)"
      and p: "truthy (dict_get kvs ''participant_id'')"
      and tr: "dict_get kvs ''trials'' = JArr (map JObj objs)"
      and st: "map unsaved new = stored_trials eng (dict_get kvs ''participant_id'') objs"
      by blast
    note ids = stored_trials_rows(2)[OF st]
    from ids p have "\<forall>s. dict_get kvs ''participant_id'' = JStr s \<longrightarrow>
                    s \<noteq> [] \<and> list_all (\<lambda>r. participant_id r = JStr s) new"
      by auto
    with rows ok req p tr st ids show ?thesis by blast
  qed
qed

theorem persisted_rows_constraints_witness:
  "\<exists>new. rows (snd (submit_data sound_engine
                      (submission (JStr ''P1'') (JArr (map JObj [scenario_trial]))) empty_db)) =
            rows empty_db @ new \<and>
          list_all row_ok new \<and>
          (new = [] \<or>
           (\<exists>kvs objs.
              submission (JStr ''P1'') (JArr (map JObj [scenario_trial])) =
                GetJsonReturns (JObj kvs) \<and>
              truthy (dict_get kvs ''participant_id'') \<and>
              dict_get kvs ''trials'' = JArr (map JObj objs) \<and>
              map unsaved new = stored_trials sound_engine (dict_get kvs ''participant_id'') objs \<and>
              list_all (\<lambda>r. participant_id r =
                          stored_value sound_engine StringCol (dict_get kvs ''participant_id'')) new \<and>
              (\<forall>s. dict_get kvs ''participant_id'' = JStr s \<longrightarrow>
                   s \<noteq> [] \<and> list_all (\<lambda>r. participant_id r = JStr s) new)))"
proof (rule persisted_rows_constraints)
  show "idle empty_db" by (simp add: eval_defs)
qed

text \<open>
  C5 as stated bounds the lengths. The handler checks none, and the engine the
  application configures (SQLite) does not enforce the size of a \<open>VARCHAR\<close>: a
  \<open>key_press\<close> of 13 characters is persisted as submitted.
\<close>

theorem persisted_rows_constraints_counterexample:
  "submit_data sound_engine
     (submission (JStr ''P1'')
        (JArr [JObj [(''task_type'', JStr ''stroop_congruent''), (''stimulus_word'', JStr ''RED''),
                     (''stimulus_color'', JStr ''red''), (''key_press'', JStr ''ArrowRightKey'')]]))
     empty_db =
     (\<lparr>status_code = 201,
       body = JObj [(''status'', JStr ''success''), (''trials_saved'', JInt 1)]\<rparr>,
      \<lparr>rows = [\<lparr>row_id = Some 1, participant_id = JStr ''P1'',
                 task_type = JStr ''stroop_congruent'', stimulus_word = JStr ''RED'',
                 stimulus_color = JStr ''red'', response_time = JNull,
                 key_press = JStr ''ArrowRightKey'',
                 was_correct = JNull, avg_blink_rate = JNull\<rparr>],
       txn = [], session = []\<rparr>) \<and>
   length ''ArrowRightKey'' = 13"
  by (simp add: eval_defs)

text \<open>
  C7 (as amended). Round trip for values of the declared types: when a submission
  handled with nothing in flight is answered 201, and the i-th trial object carries a
  \<open>response_time\<close> and an \<open>avg_blink_rate\<close> that are floats other than NaN, a
  \<open>key_press\<close> that is a string and a \<open>was_correct\<close> that is a boolean, the row stored
  for it holds exactly these four values.
\<close>

theorem optional_fields_round_trip:
  assumes "idle d"
    and "dict_get kvs ''trials'' = JArr (map JObj objs)"
    and "submit_data eng (GetJsonReturns (JObj kvs)) d = (resp, d')"
    and "status_code resp = 201"
    and "i < length objs"
    and "map_of (objs ! i) ''response_time'' = Some (JFloat rt)" and "rt \<noteq> NaN"
    and "map_of (objs ! i) ''key_press'' = Some (JStr kp)"
    and "map_of (objs ! i) ''was_correct'' = Some (JBool wc)"
    and "map_of (objs ! i) ''avg_blink_rate'' = Some (JFloat br)" and "br \<noteq> NaN"
  shows "\<exists>new. rows d' = rows d @ new \<and> length new = length objs \<and>
           response_time (new ! i) = JFloat rt \<and> key_press (new ! i) = JStr kp \<and>
           was_correct (new ! i) = JBool wc \<and> avg_blink_rate (new ! i) = JFloat br"
proof -
  let ?p = "dict_get kvs ''participant_id''"
  from assms(1) have txn: "txn d = []" and ses: "session d = []"
    by (simp_all add: idle_def)
  from submit_data_201_D[OF assms(3,4)] txn ses assms(2) obtain objs' new where
    "map JObj objs = map JObj objs'"
    and d': "d' = \<lparr>rows = rows d @ new, txn = [], session = []\<rparr>"
    and new: "map unsaved new = stored_trials eng ?p objs'"
    by auto
  from inj_JObj_map[OF this(1)] new
  have new: "map unsaved new = stored_trials eng ?p objs"
    by simp
  from stored_trials_rows(1)[OF new] have len: "length new = length objs" .
  from new have "map unsaved new ! i = stored_trials eng ?p objs ! i"
    by simp
  with len assms(5)
  have "unsaved (new ! i) = stored_row eng (new_trial ?p (objs ! i))"
    by (simp add: stored_trials_def)
  then have "response_time (unsaved (new ! i)) =
               stored_value eng FloatCol (dict_get (objs ! i) ''response_time'')"
    "key_press (unsaved (new ! i)) =
               stored_value eng StringCol (dict_get (objs ! i) ''key_press'')"
    "was_correct (unsaved (new ! i)) =
               stored_value eng BooleanCol (dict_get (objs ! i) ''was_correct'')"
    "avg_blink_rate (unsaved (new ! i)) =
               stored_value eng FloatCol (dict_get (objs ! i) ''avg_blink_rate'')"
    by (simp_all add: new_trial_def stored_row_def)
  with assms(6-11)
  have "response_time (new ! i) = JFloat rt" "key_press (new ! i) = JStr kp"
    "was_correct (new ! i) = JBool wc" "avg_blink_rate (new ! i) = JFloat br"
    by (simp_all add: unsaved_def dict_get_def stored_float)
  with d' len show ?thesis by simp
qed

theorem optional_fields_round_trip_witness:
  "\<exists>new. rows (snd (submit_data sound_engine
                      (GetJsonReturns (JObj [(''participant_id'', JStr ''P1''),
                                             (''trials'', JArr (map JObj [scenario_trial]))]))
                      empty_db)) = rows empty_db @ new \<and>
          length new = length [scenario_trial] \<and>
          response_time (new ! 0) = JFloat (Finite 0.532) \<and> key_press (new ! 0) = JStr ''r'' \<and>
          was_correct (new ! 0) = JBool True \<and> avg_blink_rate (new ! 0) = JFloat (Finite 14.2)"
proof (rule optional_fields_round_trip)
  show "idle empty_db" by (simp add: eval_defs)
  show "dict_get [(''participant_id'', JStr ''P1''),
                  (''trials'', JArr (map JObj [scenario_trial]))] ''trials'' =
        JArr (map JObj [scenario_trial])"
    by (simp add: dict_get_def)
  show "submit_data sound_engine
          (GetJsonReturns (JObj [(''participant_id'', JStr ''P1''),
                                 (''trials'', JArr (map JObj [scenario_trial]))])) empty_db =
        (created 1,
         snd (submit_data sound_engine
          (GetJsonReturns (JObj [(''participant_id'', JStr ''P1''),
                                 (''trials'', JArr (map JObj [scenario_trial]))])) empty_db))"
    by (simp add: eval_defs)
  show "status_code (created 1) = 201" by (simp add: created_def)
  show "0 < length [scenario_trial]" by simp
qed (simp_all add: scenario_trial_def)

text \<open>
  C7 as stated covers every value of an optional field. The handler passes on whatever
  it is given and the store converts it: a trial with \<open>response_time\<close> NaN and
  \<open>key_press\<close> 5 is answered 201, and its row holds NULL and the text \<open>5\<close>.
\<close>

theorem optional_fields_round_trip_counterexample:
  "submit_data sound_engine
     (submission (JStr ''P1'')
        (JArr [JObj [(''task_type'', JStr ''stroop_congruent''), (''stimulus_word'', JStr ''RED''),
                     (''stimulus_color'', JStr ''red''), (''response_time'', JFloat NaN),
                     (''key_press'', JInt 5), (''was_correct'', JBool True),
                     (''avg_blink_rate'', JFloat (Finite 14.2))]]))
     empty_db =
     (\<lparr>status_code = 201,
       body = JObj [(''status'', JStr ''success''), (''trials_saved'', JInt 1)]\<rparr>,
      \<lparr>rows = [\<lparr>row_id = Some 1, participant_id = JStr ''P1'',
                 task_type = JStr ''stroop_congruent'', stimulus_word = JStr ''RED'',
                 stimulus_color = JStr ''red'', response_time = JNull,
                 key_press = JStr ''5'',
                 was_correct = JBool True, avg_blink_rate = JFloat (Finite 14.2)\<rparr>],
       txn = [], session = []\<rparr>)"
  by (simp add: eval_defs)

text \<open>
  C9. Every row a request adds carries the top-level \<open>participant_id\<close> of the request
  as the store holds it (the very string, when it is a string), the same in all rows of
  the batch, and a \<open>participant_id\<close> key inside a trial object changes nothing in the
  row built from it.
\<close>

theorem rows_carry_request_participant:
  assumes "idle d"
  shows "(\<exists>new. rows (snd (submit_data eng (GetJsonReturns (JObj kvs)) d)) = rows d @ new \<and>
            list_all (\<lambda>r. participant_id r =
                        stored_value eng StringCol (dict_get kvs ''participant_id'')) new \<and>
            (\<forall>s. dict_get kvs ''participant_id'' = JStr s \<longrightarrow>
                 list_all (\<lambda>r. participant_id r = dict_get kvs ''participant_id'') new)) \<and>
         (\<forall>p x t. new_trial p ((''participant_id'', x) # t) = new_trial p t)"
proof
  from submit_data_new_rows[OF assms, of eng "GetJsonReturns (JObj kvs)"] obtain new where
    rows: "rows (snd (submit_data eng (GetJsonReturns (JObj kvs)) d)) = rows d @ new"
    and new: "new = [] \<or>
      (\<exists>objs. map unsaved new = stored_trials eng (dict_get kvs ''participant_id'') objs)"
    by auto
  from new have ids: "list_all (\<lambda>r. participant_id r =
                        stored_value eng StringCol (dict_get kvs ''participant_id'')) new"
    by (auto dest: stored_trials_rows(2))
  then have "\<forall>s. dict_get kvs ''participant_id'' = JStr s \<longrightarrow>
                 list_all (\<lambda>r. participant_id r = dict_get kvs ''participant_id'') new"
    by auto
  with rows ids
  show "\<exists>new. rows (snd (submit_data eng (GetJsonReturns (JObj kvs)) d)) = rows d @ new \<and>
            list_all (\<lambda>r. participant_id r =
                        stored_value eng StringCol (dict_get kvs ''participant_id'')) new \<and>
            (\<forall>s. dict_get kvs ''participant_id'' = JStr s \<longrightarrow>
                 list_all (\<lambda>r. participant_id r = dict_get kvs ''participant_id'') new)"
    by blast
  show "\<forall>p x t. new_trial p ((''participant_id'', x) # t) = new_trial p t"
    by (simp add: new_trial_def dict_get_def)
qed

theorem rows_carry_request_participant_witness:
  "map participant_id
     (rows (snd (submit_data sound_engine
        (GetJsonReturns (JObj [(''participant_id'', JStr ''P1''),
           (''trials'', JArr [JObj ((''participant_id'', JStr ''P2'') # scenario_trial),
                              JObj ((''participant_id'', JStr ''P3'') # scenario_trial)])]))
        empty_db))) = [JStr ''P1'', JStr ''P1'']"
  using rows_carry_request_participant[of empty_db sound_engine
      "[(''participant_id'', JStr ''P1''),
        (''trials'', JArr [JObj ((''participant_id'', JStr ''P2'') # scenario_trial),
                           JObj ((''participant_id'', JStr ''P3'') # scenario_trial)])]"]
  by (simp add: eval_defs)

text \<open>
  C10 (as amended). When \<open>participant_id\<close> is truthy and \<open>trials\<close> is truthy but not a
  list of JSON objects (a non-empty string, a number, a list with a number in it), the
  response is 500, not the 400 of the validation, and the table is unchanged.
\<close>

theorem non_object_trials_answer_500:
  assumes "truthy (dict_get kvs ''participant_id'')" and "truthy (dict_get kvs ''trials'')"
    and "\<not> (\<exists>objs. dict_get kvs ''trials'' = JArr (map JObj objs))"
  shows "\<exists>m. submit_data eng (GetJsonReturns (JObj kvs)) d =
           (\<lparr>status_code = 500,
             body = JObj [(''status'', JStr ''error''), (''message'', JStr m)]\<rparr>,
            \<lparr>rows = rows d, txn = [], session = []\<rparr>)"
proof -
  from try_block_not_objects[OF assms] obtain e d1 where
    tb: "try_block eng (GetJsonReturns (JObj kvs)) d = (Inl e, d1)" by blast
  from try_block_Inl[OF tb] tb
  have "submit_data eng (GetJsonReturns (JObj kvs)) d =
           (\<lparr>status_code = 500,
             body = JObj [(''status'', JStr ''error''), (''message'', JStr (str e))]\<rparr>,
            \<lparr>rows = rows d, txn = [], session = []\<rparr>)"
    by (simp add: submit_data_def server_error_def rollback_rows)
  then show ?thesis by blast
qed

theorem non_object_trials_answer_500_witness:
  "(\<exists>m. submit_data sound_engine
           (GetJsonReturns (JObj [(''participant_id'', JStr ''P1''), (''trials'', JStr ''abc'')]))
           empty_db =
           (\<lparr>status_code = 500,
             body = JObj [(''status'', JStr ''error''), (''message'', JStr m)]\<rparr>,
            \<lparr>rows = rows empty_db, txn = [], session = []\<rparr>)) \<and>
   (\<exists>m. submit_data sound_engine
           (GetJsonReturns (JObj [(''participant_id'', JStr ''P1''),
                                  (''trials'', JArr [JObj scenario_trial, JInt 1])]))
           empty_db =
           (\<lparr>status_code = 500,
             body = JObj [(''status'', JStr ''error''), (''message'', JStr m)]\<rparr>,
            \<lparr>rows = rows empty_db, txn = [], session = []\<rparr>))"
proof (intro conjI)
  show "\<exists>m. submit_data sound_engine
           (GetJsonReturns (JObj [(''participant_id'', JStr ''P1''), (''trials'', JStr ''abc'')]))
           empty_db =
           (\<lparr>status_code = 500,
             body = JObj [(''status'', JStr ''error''), (''message'', JStr m)]\<rparr>,
            \<lparr>rows = rows empty_db, txn = [], session = []\<rparr>)"
    by (rule non_object_trials_answer_500) (simp_all add: dict_get_def)
  have "[JObj scenario_trial, JInt 1] \<noteq> map JObj objs" for objs
    by (auto simp: Cons_eq_map_conv)
  then show "\<exists>m. submit_data sound_engine
           (GetJsonReturns (JObj [(''participant_id'', JStr ''P1''),
                                  (''trials'', JArr [JObj scenario_trial, JInt 1])]))
           empty_db =
           (\<lparr>status_code = 500,
             body = JObj [(''status'', JStr ''error''), (''message'', JStr m)]\<rparr>,
            \<lparr>rows = rows empty_db, txn = [], session = []\<rparr>)"
    by (intro non_object_trials_answer_500) (simp_all add: dict_get_def)
qed

text \<open>
  C10 as stated does not ask for a \<open>participant_id\<close>: without one, or with an empty
  one, the check before the loop answers 400 whatever \<open>trials\<close> holds.
\<close>

theorem non_object_trials_counterexample:
  "submit_data sound_engine (GetJsonReturns (JObj [(''trials'', JStr ''abc'')])) empty_db =
     (\<lparr>status_code = 400,
       body = JObj [(''status'', JStr ''error''),
                    (''message'', JStr ''Missing participant_id or trials data'')]\<rparr>,
      empty_db) \<and>
   submit_data sound_engine
     (GetJsonReturns (JObj [(''participant_id'', JStr []), (''trials'', JArr [JInt 1, JInt 2])]))
     empty_db =
     (\<lparr>status_code = 400,
       body = JObj [(''status'', JStr ''error''),
                    (''message'', JStr ''Missing participant_id or trials data'')]\<rparr>,
      empty_db)"
  by (simp add: eval_defs)

end
